theory Spec2Isabelle
  imports Main "HOL-Library.Sublist"
begin

section \<open>Meeting aggregator: cursor pagination (\<open>fetchAllMeetings\<close>)\<close>

text \<open>
  The upstream list endpoint is an external collaborator. One call of
  \<open>fathom.listMeetings\<close> takes a request (cursor and the two include flags) and
  either throws or resolves to a page carrying \<open>result.items\<close> and
  \<open>result.nextCursor\<close>. The collaborator is modelled as a state machine: its
  answer may depend on its own state and on the request, and every call moves it
  to a new state.

  A cursor is a string, \<open>null\<close> or \<open>undefined\<close>; \<open>None\<close> stands for the last two.
\<close>

record list_request =
  cursor :: "string option"
  includeSummary :: bool
  includeTranscript :: bool

record 'm page =
  items :: "'m list"
  nextCursor :: "string option"

datatype 'm response = Failure string | Page "'m page"

type_synonym ('s, 'm) upstream = "'s \<Rightarrow> list_request \<Rightarrow> 'm response \<times> 's"

text \<open>JavaScript truthiness of a cursor (\<open>!!cursor\<close>): only a non-empty string is truthy.\<close>

fun truthy_str :: "string option \<Rightarrow> bool" where
  "truthy_str None = False"
| "truthy_str (Some s) = (s \<noteq> [])"

text \<open>
  The local variables of \<open>fetchAllMeetings\<close>, together with the state of the
  collaborator and the list of requests issued so far (the observable effect of the
  loop).
\<close>

record ('s, 'm) loop_state =
  allMeetings :: "'m list"
  cursorVar :: "string option"
  hasMorePages :: bool
  upstreamState :: 's
  issued :: "list_request list"

record ('s, 'm) fetch_result =
  meetings :: "'m list"
  hadError :: bool
  requests :: "list_request list"
  finalUpstream :: 's

text \<open>
  The \<open>while (hasMorePages)\<close> loop. The \<open>catch\<close> branch sets \<open>hadError\<close> and
  breaks, that is, it returns at once with what has been accumulated. The loop has
  no bound of its own: against a collaborator that keeps handing out truthy cursors
  it never returns, which is the value \<open>None\<close>.
\<close>

partial_function (option) fetch_loop ::
  "('s, 'm) upstream \<Rightarrow> bool \<Rightarrow> bool \<Rightarrow> ('s, 'm) loop_state \<Rightarrow> ('s, 'm) fetch_result option"
where
  "fetch_loop listMeetings inclSummary inclTranscript st =
     (if hasMorePages st then
        (let req = \<lparr>cursor = cursorVar st, includeSummary = inclSummary,
                    includeTranscript = inclTranscript\<rparr>
         in case listMeetings (upstreamState st) req of
              (Failure err, u') \<Rightarrow>
                Some \<lparr>meetings = allMeetings st, hadError = True,
                      requests = issued st @ [req], finalUpstream = u'\<rparr>
            | (Page p, u') \<Rightarrow>
                fetch_loop listMeetings inclSummary inclTranscript
                  \<lparr>allMeetings = allMeetings st @ items p,
                   cursorVar = nextCursor p,
                   hasMorePages = truthy_str (nextCursor p),
                   upstreamState = u',
                   issued = issued st @ [req]\<rparr>)
      else
        Some \<lparr>meetings = allMeetings st, hadError = False,
              requests = issued st, finalUpstream = upstreamState st\<rparr>)"

definition fetchAllMeetings ::
  "('s, 'm) upstream \<Rightarrow> 's \<Rightarrow> bool \<Rightarrow> bool \<Rightarrow> ('s, 'm) fetch_result option"
where
  "fetchAllMeetings listMeetings u0 inclSummary inclTranscript =
     fetch_loop listMeetings inclSummary inclTranscript
       \<lparr>allMeetings = [], cursorVar = Some [], hasMorePages = True,
        upstreamState = u0, issued = []\<rparr>"

text \<open>
  A collaborator that answers its \<open>n\<close>-th call (counting from 0) with \<open>resp n\<close>:
  the state is the number of calls served. Every run against a deterministic
  collaborator is of this form, because every request is determined by the answers
  before it.
\<close>

definition replay :: "(nat \<Rightarrow> 'm response) \<Rightarrow> (nat, 'm) upstream" where
  "replay resp n req = (resp n, Suc n)"

definition mk_request :: "bool \<Rightarrow> bool \<Rightarrow> string option \<Rightarrow> list_request" where
  "mk_request inclSummary inclTranscript c =
     \<lparr>cursor = c, includeSummary = inclSummary, includeTranscript = inclTranscript\<rparr>"

text \<open>A finite script of answers; once it is used up the collaborator only fails.\<close>

definition script :: "'m response list \<Rightarrow> nat \<Rightarrow> 'm response" where
  "script rs n = (if n < length rs then rs ! n else Failure ''connection closed'')"

text \<open>Observers of an answer, used to describe runs.\<close>

fun items_of :: "'m response \<Rightarrow> 'm list" where
  "items_of (Failure e) = []"
| "items_of (Page p) = items p"

fun next_of :: "'m response \<Rightarrow> string option" where
  "next_of (Failure e) = None"
| "next_of (Page p) = nextCursor p"

fun is_failure :: "'m response \<Rightarrow> bool" where
  "is_failure (Failure e) = True"
| "is_failure (Page p) = False"

text \<open>
  An answer ends the pagination when it is a failure or carries a falsy next-cursor.
  The item list plays no part.
\<close>

definition stops :: "'m response \<Rightarrow> bool" where
  "stops r = (is_failure r \<or> \<not> truthy_str (next_of r))"

text \<open>The cursor carried by call number \<open>i\<close> of a run against \<open>replay resp\<close>.\<close>

fun cursor_of_call :: "(nat \<Rightarrow> 'm response) \<Rightarrow> nat \<Rightarrow> string option" where
  "cursor_of_call resp 0 = Some []"
| "cursor_of_call resp (Suc i) = next_of (resp i)"

section \<open>Result filter of \<open>search_meetings\<close>\<close>

subsection \<open>Strings\<close>

text \<open>
  Strings are lists of characters. \<open>toLowerCase\<close> maps the letters A to Z to a to z
  and leaves every other character alone (the ASCII part of the JavaScript
  function). \<open>str_includes s k\<close> is \<open>s.includes(k)\<close>.
\<close>

definition lower_char :: "char \<Rightarrow> char" where
  "lower_char c =
     (case map_of (zip ''ABCDEFGHIJKLMNOPQRSTUVWXYZ'' ''abcdefghijklmnopqrstuvwxyz'') c of
        None \<Rightarrow> c
      | Some d \<Rightarrow> d)"

definition toLowerCase :: "string \<Rightarrow> string" where
  "toLowerCase s = map lower_char s"

fun str_includes :: "string \<Rightarrow> string \<Rightarrow> bool" where
  "str_includes [] k = (k = [])"
| "str_includes (c # cs) k = (prefix k (c # cs) \<or> str_includes cs k)"

subsection \<open>Dates\<close>

text \<open>
  The time value of a JavaScript \<open>Date\<close>: milliseconds since the epoch, or \<open>NaN\<close>
  for an invalid date.
\<close>

datatype timeval = NaN | Ms int

text \<open>
  What the handler takes from its host: the \<open>Date\<close> constructor on a string
  (\<open>new Date(s)\<close>) and the local time zone. The zone is given as the standard's
  \<open>LocalTZA\<close> in its two readings: the offset of local time from UTC, in
  milliseconds, at a UTC time value and at a local time value. The offset may change
  with time (daylight saving). Of the parsing the standard fixes one case that
  matters below: a date-only ISO string \<open>YYYY-MM-DD\<close> is midnight UTC of that date.
\<close>

record host =
  parseDate :: "string \<Rightarrow> timeval"
  offsetAtUTC :: "int \<Rightarrow> int"
  offsetAtLocal :: "int \<Rightarrow> int"

definition msPerDay :: int where
  "msPerDay = 86400000"

definition TimeClip :: "int \<Rightarrow> timeval" where
  "TimeClip t = (if \<bar>t\<bar> > 8640000000000000 then NaN else Ms t)"

definition LocalTime :: "host \<Rightarrow> int \<Rightarrow> int" where
  "LocalTime h t = t + offsetAtUTC h t"

definition UTC :: "host \<Rightarrow> int \<Rightarrow> int" where
  "UTC h t = t - offsetAtLocal h t"

text \<open>
  \<open>Date.prototype.setHours(hh, mm, ss, ms)\<close>: take the local time of the date, keep
  its calendar day, replace the time of day, and convert that local time back to
  UTC. An invalid date stays invalid.
\<close>

fun setHours :: "host \<Rightarrow> int \<Rightarrow> int \<Rightarrow> int \<Rightarrow> int \<Rightarrow> timeval \<Rightarrow> timeval" where
  "setHours h hh mm ss ms NaN = NaN"
| "setHours h hh mm ss ms (Ms t) =
     (let localDay = LocalTime h t div msPerDay;
          timeOfDay = ((hh * 60 + mm) * 60 + ss) * 1000 + ms
      in TimeClip (UTC h (localDay * msPerDay + timeOfDay)))"

text \<open>\<open>a >= b\<close> and \<open>a <= b\<close> on numbers: false as soon as one side is \<open>NaN\<close>.\<close>

fun js_ge :: "timeval \<Rightarrow> timeval \<Rightarrow> bool" where
  "js_ge (Ms a) (Ms b) = (a \<ge> b)"
| "js_ge _ _ = False"

fun js_le :: "timeval \<Rightarrow> timeval \<Rightarrow> bool" where
  "js_le (Ms a) (Ms b) = (a \<le> b)"
| "js_le _ _ = False"

text \<open>
  The number a comparison sees for \<open>meeting.scheduledStartTime\<close>: the time value
  of the \<open>Date\<close>, or \<open>NaN\<close> when the field is \<open>undefined\<close>.
\<close>

fun to_number :: "timeval option \<Rightarrow> timeval" where
  "to_number None = NaN"
| "to_number (Some t) = t"

subsection \<open>Records and arguments\<close>

record invitee =
  name :: "string option"
  email :: "string option"

record meeting =
  recordingId :: int
  title :: "string option"
  meetingTitle :: "string option"
  scheduledStartTime :: "timeval option"
  scheduledEndTime :: "timeval option"
  url :: string
  shareUrl :: string
  calendarInvitees :: "invitee list option"

record search_args =
  participantKeywords :: "string list option"
  titleKeywords :: "string list option"
  startDate :: "string option"
  endDate :: "string option"

subsection \<open>Keyword criterion\<close>

text \<open>
  \<open>x?.toLowerCase().includes(k)\<close> is \<open>undefined\<close> (here \<open>None\<close>) when \<open>x\<close> is
  missing. \<open>js_or\<close> is \<open>||\<close> on such values and \<open>truthy\<close> their truthiness.
\<close>

definition lower_includes :: "string option \<Rightarrow> string \<Rightarrow> bool option" where
  "lower_includes x k = map_option (\<lambda>s. str_includes (toLowerCase s) k) x"

fun js_or :: "bool option \<Rightarrow> bool option \<Rightarrow> bool option" where
  "js_or (Some True) b = Some True"
| "js_or a b = b"

fun truthy :: "bool option \<Rightarrow> bool" where
  "truthy (Some b) = b"
| "truthy None = False"

definition foundInParticipants :: "meeting \<Rightarrow> string \<Rightarrow> bool option" where
  "foundInParticipants m keywordLower =
     map_option
       (list_ex (\<lambda>inv. truthy (js_or (lower_includes (name inv) keywordLower)
                                      (lower_includes (email inv) keywordLower))))
       (calendarInvitees m)"

definition foundInTitle :: "meeting \<Rightarrow> string \<Rightarrow> bool option" where
  "foundInTitle m keywordLower =
     js_or (lower_includes (title m) keywordLower)
           (lower_includes (meetingTitle m) keywordLower)"

definition keyword_found :: "meeting \<Rightarrow> string \<Rightarrow> bool" where
  "keyword_found m keyword =
     (let keywordLower = toLowerCase keyword
      in truthy (js_or (foundInParticipants m keywordLower) (foundInTitle m keywordLower)))"

text \<open>\<open>[...(args.participantKeywords || []), ...(args.titleKeywords || [])]\<close>\<close>

definition allKeywords :: "search_args \<Rightarrow> string list" where
  "allKeywords args =
     (case participantKeywords args of None \<Rightarrow> [] | Some ks \<Rightarrow> ks) @
     (case titleKeywords args of None \<Rightarrow> [] | Some ks \<Rightarrow> ks)"

definition keywordMatch :: "search_args \<Rightarrow> meeting \<Rightarrow> bool" where
  "keywordMatch args m =
     (if length (allKeywords args) > 0 then list_ex (keyword_found m) (allKeywords args)
      else True)"

subsection \<open>Date criterion\<close>

definition startOfDay :: "host \<Rightarrow> string \<Rightarrow> timeval" where
  "startOfDay h s = setHours h 0 0 0 0 (parseDate h s)"

definition endOfDay :: "host \<Rightarrow> string \<Rightarrow> timeval" where
  "endOfDay h s = setHours h 23 59 59 999 (parseDate h s)"

text \<open>
  \<open>if (args.startDate)\<close> tests truthiness: an absent and an empty string both skip
  the bound.
\<close>

definition dateMatch :: "host \<Rightarrow> search_args \<Rightarrow> meeting \<Rightarrow> bool" where
  "dateMatch h args m =
     (if truthy_str (startDate args) \<or> truthy_str (endDate args) then
        (let meetingDate = to_number (scheduledStartTime m);
             afterStart =
               (case startDate args of
                  None \<Rightarrow> True
                | Some s \<Rightarrow> if s \<noteq> [] then js_ge meetingDate (startOfDay h s) else True)
         in case endDate args of
              None \<Rightarrow> afterStart
            | Some s \<Rightarrow>
                if s \<noteq> [] then afterStart \<and> js_le meetingDate (endOfDay h s)
                else afterStart)
      else True)"

definition filterMeetings :: "host \<Rightarrow> search_args \<Rightarrow> meeting list \<Rightarrow> meeting list" where
  "filterMeetings h args ms = filter (\<lambda>m. keywordMatch args m \<and> dateMatch h args m) ms"

subsection \<open>The criteria as the specification words them\<close>

text \<open>
  The keywords of both lists form one set. A keyword occurs in a field when its
  lower-cased form is a contiguous part of the lower-cased field. The fields searched
  are the names and emails of the participants and the two title fields, as far as
  they are present. A date bound counts as supplied when it is a non-empty string.
\<close>

fun supplied :: "'a list option \<Rightarrow> 'a list" where
  "supplied None = []"
| "supplied (Some xs) = xs"

definition merged_keywords :: "search_args \<Rightarrow> string set" where
  "merged_keywords args = set (supplied (participantKeywords args)) \<union> set (supplied (titleKeywords args))"

definition occurs_ci :: "string \<Rightarrow> string \<Rightarrow> bool" where
  "occurs_ci keyword field = sublist (toLowerCase keyword) (toLowerCase field)"

fun present :: "'a option \<Rightarrow> 'a list" where
  "present None = []"
| "present (Some x) = [x]"

definition searched_fields :: "meeting \<Rightarrow> string list" where
  "searched_fields m =
     concat (map (\<lambda>inv. present (name inv) @ present (email inv)) (supplied (calendarInvitees m)))
     @ present (title m) @ present (meetingTitle m)"

definition keyword_criterion :: "search_args \<Rightarrow> meeting \<Rightarrow> bool" where
  "keyword_criterion args m =
     (\<exists>keyword \<in> merged_keywords args. \<exists>field \<in> set (searched_fields m). occurs_ci keyword field)"

definition date_criterion :: "host \<Rightarrow> search_args \<Rightarrow> meeting \<Rightarrow> bool" where
  "date_criterion h args m =
     ((case startDate args of
         None \<Rightarrow> True
       | Some s \<Rightarrow> s = [] \<or> js_ge (to_number (scheduledStartTime m)) (startOfDay h s))
      \<and>
      (case endDate args of
         None \<Rightarrow> True
       | Some s \<Rightarrow> s = [] \<or> js_le (to_number (scheduledStartTime m)) (endOfDay h s)))"

section \<open>The \<open>search_meetings\<close> handler\<close>

text \<open>
  What a tool handler returns: the text of its single content item, the structured
  payload when there is one, and the \<open>isError\<close> field when it is set.
\<close>

record 'p tool_result =
  content_text :: string
  structuredContent :: "'p option"
  isError :: "bool option"

text \<open>
  The reduced view of a meeting. \<open>startedAt\<close> and \<open>endedAt\<close> are rendered by the
  host's \<open>toLocaleDateString\<close>; \<open>durationMinutes\<close> is the host's
  \<open>Math.round(d / 1000 / 60)\<close> of the difference \<open>d\<close> of the two time values, and
  \<open>NaN\<close> when one of them is missing or invalid.
\<close>

record formatted_meeting =
  fm_recordingId :: int
  fm_title :: "string option"
  fm_meetingTitle :: "string option"
  startedAt :: "string option"
  endedAt :: "string option"
  durationMinutes :: timeval
  fm_url :: string
  fm_shareUrl :: string
  participants :: "invitee list option"

record search_payload =
  sp_meetings :: "formatted_meeting list"
  sp_count :: nat
  elicitationPrompt :: "string option"

record rendering =
  toLocaleDateString :: "timeval \<Rightarrow> string"
  roundMinutes :: "int \<Rightarrow> int"
  stringifyMeetings :: "formatted_meeting list \<Rightarrow> string"

fun duration :: "rendering \<Rightarrow> timeval \<Rightarrow> timeval \<Rightarrow> timeval" where
  "duration r (Ms e) (Ms s) = Ms (roundMinutes r (e - s))"
| "duration r _ _ = NaN"

definition formatMeeting :: "rendering \<Rightarrow> meeting \<Rightarrow> formatted_meeting" where
  "formatMeeting r m =
     \<lparr>fm_recordingId = recordingId m,
      fm_title = title m,
      fm_meetingTitle = meetingTitle m,
      startedAt = map_option (toLocaleDateString r) (scheduledStartTime m),
      endedAt = map_option (toLocaleDateString r) (scheduledEndTime m),
      durationMinutes =
        duration r (to_number (scheduledEndTime m)) (to_number (scheduledStartTime m)),
      fm_url = url m,
      fm_shareUrl = shareUrl m,
      participants = calendarInvitees m\<rparr>"

definition ENABLE_ELICITATION :: bool where
  "ENABLE_ELICITATION = True"

definition elicitation_text :: string where
  "elicitation_text =
     [CHR 0x0A, CHR 0x0A] @
     ''Would you like a summary or full transcript for any of these meetings? If so, please provide the recordingId.''"

text \<open>
  The handler returns the tool result; the model returns with it the requests that
  went upstream. \<open>None\<close>: the aggregation, and so the handler, never returns. The
  outer \<open>catch\<close> of the handler is not modelled: the aggregator catches every
  failure of a page request itself, and on records of the types above neither the
  filter nor the projection throws.
\<close>

definition search_meetings ::
  "host \<Rightarrow> rendering \<Rightarrow> ('s, meeting) upstream \<Rightarrow> 's \<Rightarrow> search_args \<Rightarrow>
     (search_payload tool_result \<times> list_request list) option"
where
  "search_meetings h r listMeetings u0 args =
     (case fetchAllMeetings listMeetings u0 False False of
        None \<Rightarrow> None
      | Some fetched \<Rightarrow>
          (let filteredMeetings = filterMeetings h args (meetings fetched);
               formattedMeetings = map (formatMeeting r) filteredMeetings;
               prompt = (if ENABLE_ELICITATION \<and> length formattedMeetings > 0
                         then elicitation_text else [])
           in Some (\<lparr>content_text = stringifyMeetings r formattedMeetings @ prompt,
                      structuredContent =
                        Some \<lparr>sp_meetings = formattedMeetings,
                              sp_count = length formattedMeetings,
                              elicitationPrompt =
                                (if ENABLE_ELICITATION then Some prompt else None)\<rparr>,
                      isError = Some (hadError fetched)\<rparr>,
                    requests fetched)))"

section \<open>The \<open>fathom_get_transcript\<close> handler\<close>

text \<open>
  The handler of the direct-HTTP version of the tool (the file that also defines
  \<open>createFathomInstance\<close>). The body of the response is parsed JSON of no known
  type, so it is modelled as a JavaScript value; a number only matters through
  being zero or not. An object is the list of its properties, each key once.
\<close>

datatype jsval =
    JUndefined
  | JNull
  | JBool bool
  | JNum int
  | JStr string
  | JArr "jsval list"
  | JObj "(string \<times> jsval) list"

text \<open>A thrown error: its name and its message.\<close>

datatype thrown = Thrown string string

text \<open>\<open>`${error}`\<close>, that is \<open>Error.prototype.toString\<close>.\<close>

fun error_string :: "thrown \<Rightarrow> string" where
  "error_string (Thrown nm msg) =
     (if msg = [] then nm else if nm = [] then msg else nm @ '': '' @ msg)"

fun js_truthy :: "jsval \<Rightarrow> bool" where
  "js_truthy JUndefined = False"
| "js_truthy JNull = False"
| "js_truthy (JBool b) = b"
| "js_truthy (JNum n) = (n \<noteq> 0)"
| "js_truthy (JStr s) = (s \<noteq> [])"
| "js_truthy (JArr xs) = True"
| "js_truthy (JObj kvs) = True"

text \<open>\<open>typeof v === "object"\<close>\<close>

fun typeof_object :: "jsval \<Rightarrow> bool" where
  "typeof_object JNull = True"
| "typeof_object (JArr xs) = True"
| "typeof_object (JObj kvs) = True"
| "typeof_object _ = False"

text \<open>
  \<open>k in v\<close> and \<open>v.k\<close> for the property names the handler uses (\<open>transcript\<close>,
  \<open>speaker\<close>, \<open>name\<close>, \<open>email\<close>, \<open>text\<close>, \<open>timestamp\<close>), none of which is a built-in
  property of an array, a string, a number or a boolean. Reading a property of
  \<open>null\<close> or \<open>undefined\<close> throws a \<open>TypeError\<close>; \<open>v?.k\<close> gives \<open>undefined\<close> there.
\<close>

fun js_in :: "string \<Rightarrow> jsval \<Rightarrow> bool" where
  "js_in k (JObj kvs) = (k \<in> set (map fst kvs))"
| "js_in k _ = False"

fun member :: "jsval \<Rightarrow> string \<Rightarrow> jsval" where
  "member (JObj kvs) k = (case map_of kvs k of None \<Rightarrow> JUndefined | Some v \<Rightarrow> v)"
| "member _ k = JUndefined"

fun nullish :: "jsval \<Rightarrow> bool" where
  "nullish JUndefined = True"
| "nullish JNull = True"
| "nullish _ = False"

definition get_prop :: "jsval \<Rightarrow> string \<Rightarrow> thrown + jsval" where
  "get_prop v k =
     (if nullish v
      then Inl (Thrown ''TypeError'' (''Cannot read properties of null or undefined, reading '' @ k))
      else Inr (member v k))"

definition opt_chain :: "jsval \<Rightarrow> string \<Rightarrow> jsval" where
  "opt_chain v k = (if nullish v then JUndefined else member v k)"

fun isArray :: "jsval \<Rightarrow> bool" where
  "isArray (JArr xs) = True"
| "isArray _ = False"

fun elements :: "jsval \<Rightarrow> jsval list" where
  "elements (JArr xs) = xs"
| "elements _ = []"

text \<open>A normalized segment; \<open>text'\<close> is its \<open>text\<close> field.\<close>

record segment =
  speaker :: jsval
  speakerEmail :: jsval
  text' :: jsval
  timestamp :: jsval

text \<open>The callback of \<open>data.transcript.map\<close>.\<close>

definition format_segment :: "jsval \<Rightarrow> thrown + segment" where
  "format_segment item =
     (case get_prop item ''speaker'' of
        Inl e \<Rightarrow> Inl e
      | Inr sp \<Rightarrow>
          Inr \<lparr>speaker = (let n = opt_chain sp ''name''
                           in if js_truthy n then n else JStr ''Unknown Speaker''),
               speakerEmail = opt_chain sp ''email'',
               text' = member item ''text'',
               timestamp = member item ''timestamp''\<rparr>)"

text \<open>\<open>Array.prototype.map\<close> with a callback that may throw: the first throw ends it.\<close>

fun map_throwing :: "('a \<Rightarrow> thrown + 'b) \<Rightarrow> 'a list \<Rightarrow> thrown + 'b list" where
  "map_throwing f [] = Inr []"
| "map_throwing f (x # xs) =
     (case f x of
        Inl e \<Rightarrow> Inl e
      | Inr y \<Rightarrow> (case map_throwing f xs of Inl e \<Rightarrow> Inl e | Inr ys \<Rightarrow> Inr (y # ys)))"

subsection \<open>The HTTP exchange\<close>

record http_request =
  req_url :: string
  req_method :: string
  req_headers :: "(string \<times> string) list"

text \<open>The body as \<open>response.json()\<close> sees it: parsed, or rejected with an error.\<close>

datatype body = InvalidJson thrown | Json jsval

record http_response =
  ok :: bool
  status :: nat
  statusText :: string
  json :: body

datatype fetch_outcome = FetchRejected thrown | FetchResolved http_response

record transcript_payload =
  tp_recordingId :: int
  tp_transcript :: "segment list"
  totalSegments :: nat

text \<open>
  What the handler takes from its environment: \<open>fetch\<close>, the API key of the process
  environment, and \<open>JSON.stringify\<close> on the two kinds of value it prints.
\<close>

record runtime =
  fetch :: "http_request \<Rightarrow> fetch_outcome"
  FATHOM_API_KEY :: "string option"
  stringifySegments :: "segment list \<Rightarrow> string"
  stringifyData :: "jsval \<Rightarrow> string"

definition digit_char :: "nat \<Rightarrow> char" where
  "digit_char n = ''0123456789'' ! n"

text \<open>
  Decimal rendering of the numbers that are spliced into strings (\<open>`${n}`\<close>), most
  significant digit first.
\<close>

fun decimal :: "nat \<Rightarrow> string \<Rightarrow> string" where
  "decimal n acc =
     (if 10 \<le> n then decimal (n div 10) (digit_char (n mod 10) # acc)
      else digit_char n # acc)"

definition show_nat :: "nat \<Rightarrow> string" where
  "show_nat n = decimal n []"

definition show_int :: "int \<Rightarrow> string" where
  "show_int i = (if 0 \<le> i then show_nat (nat i) else CHR ''-'' # show_nat (nat (- i)))"

definition transcript_request :: "runtime \<Rightarrow> int \<Rightarrow> http_request" where
  "transcript_request rt rid =
     \<lparr>req_url = ''https://api.fathom.ai/external/v1/recordings/'' @ show_int rid @ ''/transcript'',
      req_method = ''GET'',
      req_headers =
        [(''X-Api-Key'', (case FATHOM_API_KEY rt of None \<Rightarrow> [] | Some k \<Rightarrow> k)),
         (''Accept'', ''application/json'')]\<rparr>"

text \<open>The \<open>catch\<close> branch of the handler.\<close>

definition transcript_caught :: "thrown \<Rightarrow> transcript_payload tool_result" where
  "transcript_caught e =
     \<lparr>content_text = ''Error fetching transcript: '' @ error_string e,
      structuredContent = None,
      isError = Some True\<rparr>"

definition fathom_get_transcript :: "runtime \<Rightarrow> int \<Rightarrow> transcript_payload tool_result" where
  "fathom_get_transcript rt rid =
     (case fetch rt (transcript_request rt rid) of
        FetchRejected e \<Rightarrow> transcript_caught e
      | FetchResolved response \<Rightarrow>
          if \<not> ok response then
            transcript_caught
              (Thrown ''Error''
                 (''HTTP '' @ show_nat (status response) @ '': '' @ statusText response))
          else
            (case json response of
               InvalidJson e \<Rightarrow> transcript_caught e
             | Json data \<Rightarrow>
                 if js_truthy data \<and> typeof_object data \<and> js_in ''transcript'' data
                    \<and> isArray (member data ''transcript'')
                 then
                   (case map_throwing format_segment (elements (member data ''transcript'')) of
                      Inl e \<Rightarrow> transcript_caught e
                    | Inr formattedTranscript \<Rightarrow>
                        \<lparr>content_text = stringifySegments rt formattedTranscript,
                         structuredContent =
                           Some \<lparr>tp_recordingId = rid,
                                 tp_transcript = formattedTranscript,
                                 totalSegments = length formattedTranscript\<rparr>,
                         isError = None\<rparr>)
                 else
                   \<lparr>content_text = ''Unexpected response format: '' @ stringifyData rt data,
                    structuredContent = None,
                    isError = Some True\<rparr>))"

subsection \<open>The SDK-based version of the handler\<close>

text \<open>
  \<open>src/tools/meetings.ts\<close> holds another version of the same tool. It calls
  \<open>fathom.getRecordingTranscript\<close> with an empty \<open>destinationUrl\<close>, formats the
  segments with the same callback, and answers a reply without a truthy
  \<open>transcript\<close> as the callback reply of the API. \<open>fetchAllMeetings\<close> and the
  \<open>search_meetings\<close> handler are the same in both versions, up to the position of
  the SDK instance among the parameters.
\<close>

datatype sdk_outcome = SdkRejected thrown | SdkResolved jsval

record sdk_runtime =
  getRecordingTranscript :: "int \<Rightarrow> string \<Rightarrow> sdk_outcome"
  sdkStringifySegments :: "segment list \<Rightarrow> string"
  sdkStringifyResponse :: "jsval \<Rightarrow> string"

text \<open>\<open>k in v\<close>, which throws unless \<open>v\<close> is an object or an array.\<close>

fun in_operator :: "string \<Rightarrow> jsval \<Rightarrow> thrown + bool" where
  "in_operator k (JObj kvs) = Inr (k \<in> set (map fst kvs))"
| "in_operator k (JArr xs) = Inr False"
| "in_operator k v =
     Inl (Thrown ''TypeError'' (''Cannot use 'in' operator to search for '' @ k))"

definition callback_reply :: "sdk_runtime \<Rightarrow> jsval \<Rightarrow> transcript_payload tool_result" where
  "callback_reply rt response =
     \<lparr>content_text =
        ''Transcript requested via callback. Response: '' @ sdkStringifyResponse rt response,
      structuredContent = None,
      isError = Some False\<rparr>"

definition fathom_get_transcript_sdk ::
  "sdk_runtime \<Rightarrow> int \<Rightarrow> transcript_payload tool_result"
where
  "fathom_get_transcript_sdk rt rid =
     (case getRecordingTranscript rt rid [] of
        SdkRejected e \<Rightarrow> transcript_caught e
      | SdkResolved response \<Rightarrow>
          if \<not> js_truthy response then callback_reply rt response
          else
            (case in_operator ''transcript'' response of
               Inl e \<Rightarrow> transcript_caught e
             | Inr has \<Rightarrow>
                 if has \<and> js_truthy (member response ''transcript'') then
                   (case member response ''transcript'' of
                      JArr segs \<Rightarrow>
                        (case map_throwing format_segment segs of
                           Inl e \<Rightarrow> transcript_caught e
                         | Inr formattedTranscript \<Rightarrow>
                             \<lparr>content_text = sdkStringifySegments rt formattedTranscript,
                              structuredContent =
                                Some \<lparr>tp_recordingId = rid,
                                      tp_transcript = formattedTranscript,
                                      totalSegments = length formattedTranscript\<rparr>,
                              isError = None\<rparr>)
                    | _ \<Rightarrow>
                        transcript_caught
                          (Thrown ''TypeError'' ''response.transcript.map is not a function''))
                 else callback_reply rt response))"

subsection \<open>The transcript claims in the words of the specification\<close>

text \<open>
  A body is recognised when it is an object whose \<open>transcript\<close> property is an
  array. The speaker name of a segment is absent when the segment has no speaker or
  the speaker has no name (\<open>null\<close> counts as none). \<open>normalized\<close> is the shape
  \<open>{speaker, speakerEmail, text, timestamp}\<close> of a segment.
\<close>

fun has_transcript_array :: "jsval \<Rightarrow> bool" where
  "has_transcript_array (JObj kvs) =
     (case map_of kvs ''transcript'' of Some (JArr xs) \<Rightarrow> True | _ \<Rightarrow> False)"
| "has_transcript_array _ = False"



section \<open>Example runs\<close>

text \<open>An upstream that hands out the cursor \<open>x\<close> twice.\<close>

definition repeating_script :: "nat response list" where
  "repeating_script =
     [Page \<lparr>items = [1], nextCursor = Some ''x''\<rparr>,
      Page \<lparr>items = [2], nextCursor = Some ''x''\<rparr>,
      Page \<lparr>items = [3], nextCursor = None\<rparr>]"

text \<open>
  An upstream whose first page has a truthy cursor and no items, and whose third page
  carries the empty string as next-cursor.
\<close>

definition empty_page_script :: "nat response list" where
  "empty_page_script =
     [Page \<lparr>items = [], nextCursor = Some ''a''\<rparr>,
      Page \<lparr>items = [7], nextCursor = Some ''b''\<rparr>,
      Page \<lparr>items = [8], nextCursor = Some []\<rparr>]"

text \<open>
  A host one hour east of UTC that parses two ISO dates, a rendering, and the two
  records of the end-to-end example of the specification.
\<close>

definition utc_plus_one :: host where
  "utc_plus_one =
     \<lparr>parseDate = (\<lambda>s. if s = ''2024-01-01'' then Ms 1704067200000
                        else if s = ''2024-01-05'' then Ms 1704412800000
                        else NaN),
      offsetAtUTC = (\<lambda>t. 3600000),
      offsetAtLocal = (\<lambda>t. 3600000)\<rparr>"

definition plain_rendering :: rendering where
  "plain_rendering =
     \<lparr>toLocaleDateString = (\<lambda>t. ''(date)''),
      roundMinutes = (\<lambda>d. (2 * d + 60000) div 120000),
      stringifyMeetings = (\<lambda>ms. ''(json)'')\<rparr>"

definition standup :: meeting where
  "standup =
     \<lparr>recordingId = 101, title = Some ''Standup'', meetingTitle = None,
      scheduledStartTime = Some (Ms 1704153600000),
      scheduledEndTime = Some (Ms 1704155400000),
      url = ''https://fathom.video/calls/101'', shareUrl = ''https://fathom.video/share/a'',
      calendarInvitees = Some [\<lparr>name = Some ''Jo'', email = None\<rparr>]\<rparr>"

definition planning :: meeting where
  "planning =
     \<lparr>recordingId = 102, title = Some ''Planning'', meetingTitle = None,
      scheduledStartTime = Some (Ms 1704844800000),
      scheduledEndTime = Some (Ms 1704848400000),
      url = ''https://fathom.video/calls/102'', shareUrl = ''https://fathom.video/share/b'',
      calendarInvitees = Some [\<lparr>name = None, email = Some ''sam@x.com''\<rparr>]\<rparr>"

definition standup_args :: search_args where
  "standup_args =
     \<lparr>participantKeywords = None, titleKeywords = Some [''standup''],
      startDate = Some ''2024-01-01'', endDate = Some ''2024-01-05''\<rparr>"

definition two_pages :: "meeting response list" where
  "two_pages =
     [Page \<lparr>items = [standup], nextCursor = Some ''p2''\<rparr>,
      Page \<lparr>items = [planning], nextCursor = None\<rparr>]"

text \<open>
  A host five hours west of UTC all year. It parses the two date-only strings as the
  standard prescribes, as midnight UTC. With it come a call at noon local time on
  31 December 2023 and one at noon local time on 5 January 2024 (17:00 UTC both),
  and the argument sets that name 1 January as start and 5 January as end. Day
  19722 since the epoch is 31 December 2023, day 19723 is 1 January 2024.
\<close>

definition utc_minus_five :: host where
  "utc_minus_five =
     \<lparr>parseDate = (\<lambda>s. if s = ''2024-01-01'' then Ms 1704067200000
                        else if s = ''2024-01-05'' then Ms 1704412800000
                        else NaN),
      offsetAtUTC = (\<lambda>t. - 18000000),
      offsetAtLocal = (\<lambda>t. - 18000000)\<rparr>"

definition new_years_eve_call :: meeting where
  "new_years_eve_call =
     \<lparr>recordingId = 103, title = Some ''Year end'', meetingTitle = None,
      scheduledStartTime = Some (Ms 1704042000000),
      scheduledEndTime = Some (Ms 1704045600000),
      url = ''https://fathom.video/calls/103'', shareUrl = ''https://fathom.video/share/c'',
      calendarInvitees = None\<rparr>"

definition jan_5_call :: meeting where
  "jan_5_call =
     \<lparr>recordingId = 104, title = Some ''Review'', meetingTitle = None,
      scheduledStartTime = Some (Ms 1704474000000),
      scheduledEndTime = Some (Ms 1704477600000),
      url = ''https://fathom.video/calls/104'', shareUrl = ''https://fathom.video/share/d'',
      calendarInvitees = None\<rparr>"

definition from_jan_1 :: search_args where
  "from_jan_1 =
     \<lparr>participantKeywords = None, titleKeywords = None,
      startDate = Some ''2024-01-01'', endDate = None\<rparr>"

definition until_jan_5 :: search_args where
  "until_jan_5 =
     \<lparr>participantKeywords = None, titleKeywords = None,
      startDate = None, endDate = Some ''2024-01-05''\<rparr>"

text \<open>
  A host on New York time around the change to daylight saving of 10 March 2024
  (02:00 local, 07:00 UTC): five hours west of UTC before it and four after. It
  parses one string, as local midnight of 10 March.
\<close>

definition new_york_march :: host where
  "new_york_march =
     \<lparr>parseDate = (\<lambda>s. if s = ''March 10, 2024'' then Ms 1710046800000 else NaN),
      offsetAtUTC = (\<lambda>t. if t < 1710054000000 then - 18000000 else - 14400000),
      offsetAtLocal = (\<lambda>t. if t < 1710039600000 then - 18000000 else - 14400000)\<rparr>"


definition no_criteria :: search_args where
  "no_criteria =
     \<lparr>participantKeywords = None, titleKeywords = Some [],
      startDate = None, endDate = None\<rparr>"

definition blank_start :: search_args where
  "blank_start =
     \<lparr>participantKeywords = None, titleKeywords = None,
      startDate = Some [], endDate = None\<rparr>"

definition unparsable_start :: search_args where
  "unparsable_start =
     \<lparr>participantKeywords = None, titleKeywords = None,
      startDate = Some ''next tuesday'', endDate = None\<rparr>"

definition standup_result :: "search_payload tool_result" where
  "standup_result =
     \<lparr>content_text = ''(json)'' @ elicitation_text,
      structuredContent =
        Some \<lparr>sp_meetings = [formatMeeting plain_rendering standup],
              sp_count = 1,
              elicitationPrompt = Some elicitation_text\<rparr>,
      isError = Some False\<rparr>"

text \<open>
  Runtimes that answer the transcript request for recording 42 with a fixed reply,
  and two replies: a transcript of two segments, the second without a speaker name,
  and a body of another shape.
\<close>

definition canned :: "http_response \<Rightarrow> runtime" where
  "canned response =
     \<lparr>fetch = (\<lambda>req. if req_url req = ''https://api.fathom.ai/external/v1/recordings/42/transcript''
                      then FetchResolved response
                      else FetchRejected (Thrown ''TypeError'' ''fetch failed'')),
      FATHOM_API_KEY = Some ''secret'',
      stringifySegments = (\<lambda>segs. ''(segments)''),
      stringifyData = (\<lambda>data. ''(data)'')\<rparr>"



definition unexpected_body :: http_response where
  "unexpected_body =
     \<lparr>ok = True, status = 200, statusText = ''OK'',
      json = Json (JObj [(''message'', JStr ''queued'')])\<rparr>"

definition sdk_canned :: "jsval \<Rightarrow> sdk_runtime" where
  "sdk_canned response =
     \<lparr>getRecordingTranscript =
        (\<lambda>rid destinationUrl. if rid = 42 \<and> destinationUrl = [] then SdkResolved response
                               else SdkRejected (Thrown ''Error'' ''not found'')),
      sdkStringifySegments = (\<lambda>segs. ''(segments)''),
      sdkStringifyResponse = (\<lambda>response. ''(response)'')\<rparr>"

section \<open>Properties of the aggregator\<close>

lemma fetch_loop_stop:
  "\<not> hasMorePages st \<Longrightarrow>
   fetch_loop up a b st =
     Some \<lparr>meetings = allMeetings st, hadError = False,
           requests = issued st, finalUpstream = upstreamState st\<rparr>"
  by (subst fetch_loop.simps) simp

lemma fetch_loop_failure:
  "hasMorePages st \<Longrightarrow>
   up (upstreamState st) (mk_request a b (cursorVar st)) = (Failure e, u') \<Longrightarrow>
   fetch_loop up a b st =
     Some \<lparr>meetings = allMeetings st, hadError = True,
           requests = issued st @ [mk_request a b (cursorVar st)], finalUpstream = u'\<rparr>"
  by (subst fetch_loop.simps) (simp add: mk_request_def)

lemma fetch_loop_page:
  "hasMorePages st \<Longrightarrow>
   up (upstreamState st) (mk_request a b (cursorVar st)) = (Page p, u') \<Longrightarrow>
   fetch_loop up a b st =
     fetch_loop up a b
       \<lparr>allMeetings = allMeetings st @ items p, cursorVar = nextCursor p,
        hasMorePages = truthy_str (nextCursor p), upstreamState = u',
        issued = issued st @ [mk_request a b (cursorVar st)]\<rparr>"
  by (subst fetch_loop.simps) (simp add: mk_request_def)

lemma stops_cases:
  "stops r \<longleftrightarrow> (\<exists>e. r = Failure e) \<or> (\<exists>p. r = Page p \<and> \<not> truthy_str (nextCursor p))"
  by (cases r) (simp_all add: stops_def)

lemma not_stops_page: "\<not> stops r \<Longrightarrow> \<exists>p. r = Page p \<and> truthy_str (nextCursor p)"
  by (cases r) (simp_all add: stops_def)

lemma fetch_prefix:
  assumes "\<forall>i<k. \<not> stops (resp i)"
  shows "fetchAllMeetings (replay resp) 0 a b
       = fetch_loop (replay resp) a b
           \<lparr>allMeetings = concat (map (\<lambda>i. items_of (resp i)) [0..<k]),
            cursorVar = cursor_of_call resp k, hasMorePages = True,
            upstreamState = k,
            issued = map (\<lambda>i. mk_request a b (cursor_of_call resp i)) [0..<k]\<rparr>"
  using assms
proof (induction k)
  case 0
  show ?case by (simp add: fetchAllMeetings_def)
next
  case (Suc k)
  from Suc.prems have "\<not> stops (resp k)" by simp
  then obtain p where p: "resp k = Page p" "truthy_str (nextCursor p)"
    using not_stops_page by blast
  from Suc.prems have "\<forall>i<k. \<not> stops (resp i)" by simp
  then have "fetchAllMeetings (replay resp) 0 a b
       = fetch_loop (replay resp) a b
           \<lparr>allMeetings = concat (map (\<lambda>i. items_of (resp i)) [0..<k]),
            cursorVar = cursor_of_call resp k, hasMorePages = True,
            upstreamState = k,
            issued = map (\<lambda>i. mk_request a b (cursor_of_call resp i)) [0..<k]\<rparr>"
    by (rule Suc.IH)
  also have "\<dots> = fetch_loop (replay resp) a b
           \<lparr>allMeetings = concat (map (\<lambda>i. items_of (resp i)) [0..<k]) @ items p,
            cursorVar = nextCursor p, hasMorePages = True,
            upstreamState = Suc k,
            issued = map (\<lambda>i. mk_request a b (cursor_of_call resp i)) [0..<k]
                     @ [mk_request a b (cursor_of_call resp k)]\<rparr>"
    using p by (subst fetch_loop_page[where p = p and u' = "Suc k"]) (simp_all add: replay_def)
  finally show ?case using p by simp
qed

lemma fetch_first_stop:
  assumes "\<forall>i<k. \<not> stops (resp i)" and "stops (resp k)"
  shows "fetchAllMeetings (replay resp) 0 a b
       = Some \<lparr>meetings = concat (map (\<lambda>i. items_of (resp i)) [0..<Suc k]),
               hadError = is_failure (resp k),
               requests = map (\<lambda>i. mk_request a b (cursor_of_call resp i)) [0..<Suc k],
               finalUpstream = Suc k\<rparr>"
proof -
  note pre = fetch_prefix[OF assms(1), of a b]
  from assms(2) consider e where "resp k = Failure e"
    | p where "resp k = Page p" "\<not> truthy_str (nextCursor p)"
    using stops_cases by blast
  then show ?thesis
  proof cases
    case 1
    then show ?thesis
      unfolding pre
      by (subst fetch_loop_failure[where e = e and u' = "Suc k"]) (simp_all add: replay_def)
  next
    case 2
    then show ?thesis
      unfolding pre
      by (subst fetch_loop_page[where p = p and u' = "Suc k"])
         (simp_all add: replay_def fetch_loop_stop)
  qed
qed

lemma calls_cursors:
  "map (\<lambda>i. mk_request a b (cursor_of_call resp i)) [0..<Suc k]
     = map (mk_request a b) (Some [] # map (\<lambda>i. next_of (resp i)) [0..<k])"
  by (simp only: map_upt_Suc) (simp add: comp_def)

lemma pages_items:
  "\<forall>i<length ps. resp i = Page (ps ! i) \<Longrightarrow>
   map (\<lambda>i. items_of (resp i)) [0..<length ps] = map items ps"
  by (rule nth_equalityI) simp_all

lemma pages_cursors:
  "\<forall>i<length ps. resp i = Page (ps ! i) \<Longrightarrow>
   map (\<lambda>i. next_of (resp i)) [0..<length ps] = map nextCursor ps"
  by (rule nth_equalityI) simp_all

text \<open>
  Claim C1. Let \<open>ps\<close> be a non-empty finite sequence of pages such that the
  collaborator answers call \<open>i\<close> with page \<open>ps ! i\<close>, every page but the last
  carries a truthy next-cursor and the last one a falsy one. Then
  \<open>fetchAllMeetings\<close> returns, its meetings are the concatenation of the item
  lists of all pages in request order (nothing reordered, nothing de-duplicated)
  and its error flag is false.
\<close>

theorem fetchAllMeetings_concatenates_pages:
  assumes nonempty: "ps \<noteq> []"
    and pages: "\<forall>i<length ps. resp i = Page (ps ! i)"
    and more: "\<forall>i<length ps - 1. truthy_str (nextCursor (ps ! i))"
    and final: "\<not> truthy_str (nextCursor (last ps))"
  shows "fetchAllMeetings (replay resp) 0 inclSummary inclTranscript
       = Some \<lparr>meetings = concat (map items ps), hadError = False,
               requests = map (mk_request inclSummary inclTranscript)
                            (Some [] # map nextCursor (butlast ps)),
               finalUpstream = length ps\<rparr>"
proof -
  define k where "k = length ps - 1"
  with nonempty have len: "length ps = Suc k" by (cases ps) simp_all
  have run: "\<forall>i<k. \<not> stops (resp i)"
    using pages more len by (simp add: stops_def)
  have lastp: "resp k = Page (last ps)"
    using pages nonempty len by (simp add: last_conv_nth)
  then have stop: "stops (resp k)" "\<not> is_failure (resp k)"
    using final by (simp_all add: stops_def)
  have bl: "\<forall>i<length (butlast ps). resp i = Page (butlast ps ! i)"
    using pages by (simp add: nth_butlast)
  have cur: "map (\<lambda>i. next_of (resp i)) [0..<k] = map nextCursor (butlast ps)"
    using pages_cursors[OF bl] len by simp
  have reqs: "map (\<lambda>i. mk_request inclSummary inclTranscript (cursor_of_call resp i)) [0..<Suc k]
            = map (mk_request inclSummary inclTranscript) (Some [] # map nextCursor (butlast ps))"
    unfolding calls_cursors cur by (rule refl)
  have its: "map (\<lambda>i. items_of (resp i)) [0..<Suc k] = map items ps"
    using pages_items[OF pages] len by simp
  show ?thesis
    unfolding fetch_first_stop[OF run stop(1)] reqs its using stop(2) len by simp
qed

theorem fetchAllMeetings_concatenates_pages_witness:
  "fetchAllMeetings
     (replay (script [Page \<lparr>items = [1, 2 :: nat], nextCursor = Some ''c1''\<rparr>,
                      Page \<lparr>items = [2], nextCursor = Some ''c2''\<rparr>,
                      Page \<lparr>items = [3, 1], nextCursor = None\<rparr>]))
     0 False False
   = Some \<lparr>meetings = [1, 2, 2, 3, 1], hadError = False,
           requests = [mk_request False False (Some []),
                       mk_request False False (Some ''c1''),
                       mk_request False False (Some ''c2'')],
           finalUpstream = 3\<rparr>"
  using fetchAllMeetings_concatenates_pages
    [of "[\<lparr>items = [1, 2 :: nat], nextCursor = Some ''c1''\<rparr>,
          \<lparr>items = [2], nextCursor = Some ''c2''\<rparr>,
          \<lparr>items = [3, 1], nextCursor = None\<rparr>]"
        "script [Page \<lparr>items = [1, 2 :: nat], nextCursor = Some ''c1''\<rparr>,
                 Page \<lparr>items = [2], nextCursor = Some ''c2''\<rparr>,
                 Page \<lparr>items = [3, 1], nextCursor = None\<rparr>]"
        False False]
  by (simp add: script_def nth_Cons' less_Suc_eq numeral_3_eq_3 numeral_2_eq_2)

text \<open>
  Claim C2. If the first \<open>length ps\<close> calls are answered with the pages \<open>ps\<close>, each
  with a truthy next-cursor, and the next call throws, then \<open>fetchAllMeetings\<close>
  returns exactly the items of the pages fetched before, concatenated in order, with
  the error flag set. The failed call is the last one: \<open>length ps + 1\<close> requests
  were issued, each with the cursor of the page before it, and the collaborator has
  served \<open>length ps + 1\<close> calls when the function returns (no retry, no later
  page).
\<close>

theorem fetchAllMeetings_failure_keeps_earlier_pages:
  assumes pages: "\<forall>i<length ps. resp i = Page (ps ! i) \<and> truthy_str (nextCursor (ps ! i))"
    and fails: "resp (length ps) = Failure e"
  shows "fetchAllMeetings (replay resp) 0 inclSummary inclTranscript
       = Some \<lparr>meetings = concat (map items ps), hadError = True,
               requests = map (mk_request inclSummary inclTranscript)
                            (Some [] # map nextCursor ps),
               finalUpstream = Suc (length ps)\<rparr>"
proof -
  have run: "\<forall>i<length ps. \<not> stops (resp i)"
    using pages by (simp add: stops_def)
  have stop: "stops (resp (length ps))"
    using fails by (simp add: stops_def)
  have pg: "\<forall>i<length ps. resp i = Page (ps ! i)"
    using pages by simp
  have its: "map (\<lambda>i. items_of (resp i)) [0..<Suc (length ps)] = map items ps @ [[]]"
    using pages_items[OF pg] fails by simp
  show ?thesis
    unfolding fetch_first_stop[OF run stop] calls_cursors pages_cursors[OF pg] its
    using fails by simp
qed

theorem fetchAllMeetings_failure_keeps_earlier_pages_witness:
  "fetchAllMeetings
     (replay (script [Page \<lparr>items = [10, 11 :: nat], nextCursor = Some ''c1''\<rparr>,
                      Page \<lparr>items = [12], nextCursor = Some ''c2''\<rparr>,
                      Failure ''HTTP 500'',
                      Page \<lparr>items = [13], nextCursor = None\<rparr>]))
     0 False False
   = Some \<lparr>meetings = [10, 11, 12], hadError = True,
           requests = [mk_request False False (Some []),
                       mk_request False False (Some ''c1''),
                       mk_request False False (Some ''c2'')],
           finalUpstream = 3\<rparr>"
  using fetchAllMeetings_failure_keeps_earlier_pages
    [of "[\<lparr>items = [10, 11 :: nat], nextCursor = Some ''c1''\<rparr>,
          \<lparr>items = [12], nextCursor = Some ''c2''\<rparr>]"
        "script [Page \<lparr>items = [10, 11 :: nat], nextCursor = Some ''c1''\<rparr>,
                 Page \<lparr>items = [12], nextCursor = Some ''c2''\<rparr>,
                 Failure ''HTTP 500'',
                 Page \<lparr>items = [13], nextCursor = None\<rparr>]"
        "''HTTP 500''" False False]
  by (simp add: script_def nth_Cons' less_Suc_eq numeral_3_eq_3 numeral_2_eq_2)

lemma first_stop_exists:
  fixes resp :: "nat \<Rightarrow> 'm response"
  assumes "stops (resp j)"
  shows "\<exists>k\<le>j. stops (resp k) \<and> (\<forall>i<k. \<not> stops (resp i))"
proof -
  define k where "k = (LEAST i. stops (resp i))"
  have "stops (resp k)"
    unfolding k_def using assms by (rule LeastI[of "\<lambda>i. stops (resp i)" j])
  moreover have "k \<le> j"
    unfolding k_def using assms by (rule Least_le[of "\<lambda>i. stops (resp i)" j])
  moreover have "\<forall>i<k. \<not> stops (resp i)"
    unfolding k_def using not_less_Least[of _ "\<lambda>i. stops (resp i)"] by blast
  ultimately show ?thesis by blast
qed

lemma truthy_cursors_distinct:
  assumes "\<forall>i<k. \<not> stops (resp i)"
  shows "distinct (Some [] # map (\<lambda>i. next_of (resp i)) [0..<k])
         \<longleftrightarrow> distinct (map (\<lambda>i. next_of (resp i)) [0..<k])"
proof -
  have "Some [] \<notin> set (map (\<lambda>i. next_of (resp i)) [0..<k])"
  proof
    assume "Some [] \<in> set (map (\<lambda>i. next_of (resp i)) [0..<k])"
    then obtain i where "i < k" "next_of (resp i) = Some []" by auto
    with assms show False by (auto simp: stops_def)
  qed
  then show ?thesis by simp
qed

lemma cursor_mk_request: "map cursor (map (mk_request a b) cs) = cs"
  by (induction cs) (simp_all add: mk_request_def)

lemma fetch_loop_flags:
  fixes up :: "('s, 'm) upstream"
  assumes ret: "fetch_loop up a b st = Some out"
  shows "(\<forall>q\<in>set (issued st). includeSummary q = a \<and> includeTranscript q = b) \<longrightarrow>
         (\<forall>q\<in>set (requests out). includeSummary q = a \<and> includeTranscript q = b)"
proof (rule fetch_loop.raw_induct
         [where P = "\<lambda>up a b st out.
            (\<forall>q\<in>set (issued st). includeSummary q = a \<and> includeTranscript q = b) \<longrightarrow>
            (\<forall>q\<in>set (requests out). includeSummary q = a \<and> includeTranscript q = b)",
          OF _ ret])
  fix f :: "('s, 'm) upstream \<Rightarrow> bool \<Rightarrow> bool \<Rightarrow> ('s, 'm) loop_state
              \<Rightarrow> ('s, 'm) fetch_result option"
    and up :: "('s, 'm) upstream" and a b st out
  assume IH: "\<And>up a b st out. f up a b st = Some out \<Longrightarrow>
            (\<forall>q\<in>set (issued st). includeSummary q = a \<and> includeTranscript q = b) \<longrightarrow>
            (\<forall>q\<in>set (requests out). includeSummary q = a \<and> includeTranscript q = b)"
  assume body: "(if hasMorePages st then
        (let req = \<lparr>cursor = cursorVar st, includeSummary = a, includeTranscript = b\<rparr>
         in case up (upstreamState st) req of
              (Failure err, u') \<Rightarrow>
                Some \<lparr>meetings = allMeetings st, hadError = True,
                      requests = issued st @ [req], finalUpstream = u'\<rparr>
            | (Page p, u') \<Rightarrow>
                f up a b
                  \<lparr>allMeetings = allMeetings st @ items p,
                   cursorVar = nextCursor p,
                   hasMorePages = truthy_str (nextCursor p),
                   upstreamState = u',
                   issued = issued st @ [req]\<rparr>)
      else
        Some \<lparr>meetings = allMeetings st, hadError = False,
              requests = issued st, finalUpstream = upstreamState st\<rparr>) = Some out"
  show "(\<forall>q\<in>set (issued st). includeSummary q = a \<and> includeTranscript q = b) \<longrightarrow>
        (\<forall>q\<in>set (requests out). includeSummary q = a \<and> includeTranscript q = b)"
  proof (cases "hasMorePages st")
    case False
    with body have "Some \<lparr>meetings = allMeetings st, hadError = False,
              requests = issued st, finalUpstream = upstreamState st\<rparr> = Some out"
      by (simp only: if_False)
    then have "requests out = issued st" by auto
    then show ?thesis by (simp only: simp_thms)
  next
    case True
    let ?req = "\<lparr>cursor = cursorVar st, includeSummary = a, includeTranscript = b\<rparr>"
    obtain rsp u' where call: "up (upstreamState st) ?req = (rsp, u')"
      by (cases "up (upstreamState st) ?req")
    from body True have unfolded:
      "(case (rsp, u') of
              (Failure err, u') \<Rightarrow>
                Some \<lparr>meetings = allMeetings st, hadError = True,
                      requests = issued st @ [?req], finalUpstream = u'\<rparr>
            | (Page p, u') \<Rightarrow>
                f up a b
                  \<lparr>allMeetings = allMeetings st @ items p,
                   cursorVar = nextCursor p,
                   hasMorePages = truthy_str (nextCursor p),
                   upstreamState = u',
                   issued = issued st @ [?req]\<rparr>) = Some out"
      by (simp only: if_True Let_def call)
    show ?thesis
    proof (cases rsp)
      case (Failure e)
      with unfolded have "Some \<lparr>meetings = allMeetings st, hadError = True,
                      requests = issued st @ [?req], finalUpstream = u'\<rparr> = Some out"
        by (simp only: prod.case response.case)
      then have "requests out = issued st @ [?req]" by auto
      then show ?thesis by (simp add: ball_Un)
    next
      case (Page p)
      with unfolded have rec: "f up a b \<lparr>allMeetings = allMeetings st @ items p,
                   cursorVar = nextCursor p,
                   hasMorePages = truthy_str (nextCursor p),
                   upstreamState = u',
                   issued = issued st @ [?req]\<rparr> = Some out"
        by (simp only: prod.case response.case)
      note step = IH[OF rec, unfolded loop_state.select_convs]
      show ?thesis
      proof
        assume old: "\<forall>q\<in>set (issued st). includeSummary q = a \<and> includeTranscript q = b"
        then have "\<forall>q\<in>set (issued st @ [?req]). includeSummary q = a \<and> includeTranscript q = b"
          by (simp add: ball_Un)
        with step show "\<forall>q\<in>set (requests out). includeSummary q = a \<and> includeTranscript q = b"
          by (rule mp)
      qed
    qed
  qed
qed

text \<open>
  Claim C6. Whenever some answer of the collaborator ends the pagination
  (a failure or a page with a falsy next-cursor), \<open>fetchAllMeetings\<close> returns, and
  it does so at the first such answer \<open>k\<close>: exactly \<open>k + 1\<close> requests are issued,
  the first with the empty cursor and each later one with the next-cursor of the
  answer just before it; the error flag is set exactly when answer \<open>k\<close> is a
  failure, so a falsy next-cursor on a page ends the loop without an error; the
  items of every page up to \<open>k\<close> are kept, whatever their number, so a page with a
  truthy cursor and no items does not end the loop. No cursor is sent twice exactly
  when the collaborator hands out no next-cursor twice before answer \<open>k\<close>.
\<close>

theorem fetchAllMeetings_returns_at_first_stop:
  assumes "stops (resp j)"
  shows "\<exists>k out. k \<le> j \<and> stops (resp k) \<and> (\<forall>i<k. \<not> stops (resp i))
           \<and> fetchAllMeetings (replay resp) 0 inclSummary inclTranscript = Some out
           \<and> requests out = map (mk_request inclSummary inclTranscript)
                                (Some [] # map (\<lambda>i. next_of (resp i)) [0..<k])
           \<and> finalUpstream out = Suc k
           \<and> hadError out = is_failure (resp k)
           \<and> meetings out = concat (map (\<lambda>i. items_of (resp i)) [0..<Suc k])
           \<and> (distinct (map cursor (requests out))
                \<longleftrightarrow> distinct (map (\<lambda>i. next_of (resp i)) [0..<k]))"
proof -
  from assms first_stop_exists[of resp j] obtain k
    where k: "k \<le> j" "stops (resp k)" "\<forall>i<k. \<not> stops (resp i)" by blast
  define out where "out = \<lparr>meetings = concat (map (\<lambda>i. items_of (resp i)) [0..<Suc k]),
               hadError = is_failure (resp k),
               requests = map (mk_request inclSummary inclTranscript)
                            (Some [] # map (\<lambda>i. next_of (resp i)) [0..<k]),
               finalUpstream = Suc k\<rparr>"
  have run: "fetchAllMeetings (replay resp) 0 inclSummary inclTranscript = Some out"
    unfolding out_def fetch_first_stop[OF k(3) k(2)] calls_cursors by (rule refl)
  have cur: "map cursor (requests out) = Some [] # map (\<lambda>i. next_of (resp i)) [0..<k]"
    unfolding out_def by (simp only: fetch_result.simps cursor_mk_request)
  have "distinct (map cursor (requests out)) \<longleftrightarrow> distinct (map (\<lambda>i. next_of (resp i)) [0..<k])"
    unfolding cur by (rule truthy_cursors_distinct[OF k(3)])
  moreover have "requests out = map (mk_request inclSummary inclTranscript)
                                (Some [] # map (\<lambda>i. next_of (resp i)) [0..<k])"
    by (simp add: out_def)
  moreover have "finalUpstream out = Suc k" "hadError out = is_failure (resp k)"
    "meetings out = concat (map (\<lambda>i. items_of (resp i)) [0..<Suc k])"
    by (simp_all add: out_def)
  ultimately show ?thesis
    using k run by (intro exI[of _ k] exI[of _ out] conjI) simp_all
qed

text \<open>
  The loop keeps no record of the cursors it has used: the cursor \<open>x\<close>, handed out
  by two pages, is requested twice.
\<close>

theorem repeated_cursor_requested_again:
  "fetchAllMeetings (replay (script repeating_script)) 0 False False
     = Some \<lparr>meetings = [1, 2, 3], hadError = False,
             requests = [mk_request False False (Some []),
                         mk_request False False (Some ''x''),
                         mk_request False False (Some ''x'')],
             finalUpstream = 3\<rparr>
   \<and> \<not> distinct (map cursor (requests (the
           (fetchAllMeetings (replay (script repeating_script)) 0 False False))))"
proof -
  have run: "\<forall>i<2. \<not> stops (script repeating_script i)"
    by (simp add: script_def repeating_script_def stops_def less_Suc_eq numeral_2_eq_2)
  have stop: "stops (script repeating_script 2)"
    by (simp add: script_def repeating_script_def stops_def)
  have "fetchAllMeetings (replay (script repeating_script)) 0 False False
     = Some \<lparr>meetings = [1, 2, 3], hadError = False,
             requests = [mk_request False False (Some []),
                         mk_request False False (Some ''x''),
                         mk_request False False (Some ''x'')],
             finalUpstream = 3\<rparr>"
    unfolding fetch_first_stop[OF run stop] calls_cursors
    by (simp add: script_def repeating_script_def numeral_2_eq_2 numeral_3_eq_3)
  then show ?thesis by (simp add: mk_request_def)
qed

theorem fetchAllMeetings_returns_at_first_stop_witness:
  "stops (script empty_page_script 5)
   \<and> (\<exists>out. fetchAllMeetings (replay (script empty_page_script)) 0 False False = Some out
          \<and> meetings out = [7, 8] \<and> hadError out = False \<and> finalUpstream out = 3
          \<and> requests out = [mk_request False False (Some []),
                             mk_request False False (Some ''a''),
                             mk_request False False (Some ''b'')])"
proof -
  have s5: "stops (script empty_page_script 5)"
    by (simp add: script_def empty_page_script_def stops_def)
  from s5 fetchAllMeetings_returns_at_first_stop[of "script empty_page_script" 5 False False]
  obtain k out where k: "stops (script empty_page_script k)"
      "\<forall>i<k. \<not> stops (script empty_page_script i)"
    and out: "fetchAllMeetings (replay (script empty_page_script)) 0 False False = Some out"
      "requests out = map (mk_request False False)
                        (Some [] # map (\<lambda>i. next_of (script empty_page_script i)) [0..<k])"
      "finalUpstream out = Suc k" "hadError out = is_failure (script empty_page_script k)"
      "meetings out = concat (map (\<lambda>i. items_of (script empty_page_script i)) [0..<Suc k])"
    by blast
  have n01: "\<not> stops (script empty_page_script 0)" "\<not> stops (script empty_page_script 1)"
    by (simp_all add: script_def empty_page_script_def stops_def)
  have s2: "stops (script empty_page_script 2)"
    by (simp add: script_def empty_page_script_def stops_def)
  have k2: "k = Suc (Suc 0)"
  proof -
    have "\<not> 2 < k" using k(2) s2 by blast
    moreover have "k \<noteq> 0"
    proof
      assume "k = 0"
      with k(1) n01(1) show False by simp
    qed
    moreover have "k \<noteq> 1"
    proof
      assume "k = 1"
      with k(1) n01(2) show False by simp
    qed
    ultimately show ?thesis by linarith
  qed
  have "meetings out = [7, 8]" "hadError out = False" "finalUpstream out = 3"
    "requests out = [mk_request False False (Some []),
                     mk_request False False (Some ''a''),
                     mk_request False False (Some ''b'')]"
    unfolding out k2 by (simp_all add: script_def empty_page_script_def)
  with s5 out(1) show ?thesis by blast
qed

section \<open>Properties of the result filter\<close>

lemma str_includes_sublist: "str_includes s k \<longleftrightarrow> sublist k s"
  by (induction s) (simp_all add: sublist_Cons_right)

lemma truthy_js_or: "truthy (js_or x y) \<longleftrightarrow> truthy x \<or> truthy y"
  by (induction x y rule: js_or.induct) auto

lemma truthy_lower_includes:
  "truthy (lower_includes x (toLowerCase keyword)) \<longleftrightarrow> (\<exists>field \<in> set (present x). occurs_ci keyword field)"
  by (cases x) (simp_all add: lower_includes_def occurs_ci_def str_includes_sublist)

lemma truthy_foundInParticipants:
  "truthy (foundInParticipants m (toLowerCase keyword)) \<longleftrightarrow>
     (\<exists>inv \<in> set (supplied (calendarInvitees m)).
        \<exists>field \<in> set (present (name inv) @ present (email inv)). occurs_ci keyword field)"
  by (cases "calendarInvitees m")
     (auto simp: foundInParticipants_def list_ex_iff truthy_js_or truthy_lower_includes)

lemma keyword_found_iff:
  "keyword_found m keyword \<longleftrightarrow> (\<exists>field \<in> set (searched_fields m). occurs_ci keyword field)"
  unfolding keyword_found_def Let_def truthy_js_or truthy_foundInParticipants foundInTitle_def
    truthy_lower_includes searched_fields_def
  by auto

lemma allKeywords_merged: "set (allKeywords args) = merged_keywords args"
  by (cases "participantKeywords args"; cases "titleKeywords args")
     (simp_all add: allKeywords_def merged_keywords_def)

lemma keywordMatch_iff:
  "keywordMatch args m \<longleftrightarrow> merged_keywords args = {} \<or> keyword_criterion args m"
proof -
  have "allKeywords args = [] \<longleftrightarrow> merged_keywords args = {}"
    using allKeywords_merged[of args] by (metis set_empty)
  then show ?thesis
    by (auto simp: keywordMatch_def keyword_criterion_def list_ex_iff keyword_found_iff
          allKeywords_merged)
qed

lemma dateMatch_iff: "dateMatch h args m \<longleftrightarrow> date_criterion h args m"
  by (cases "startDate args"; cases "endDate args")
     (auto simp: dateMatch_def date_criterion_def Let_def)



text \<open>
  Claim C5. With no keyword and neither date bound supplied the filter returns its
  input unchanged.
\<close>

theorem filter_identity_without_criteria:
  assumes "merged_keywords args = {}"
    and "\<not> truthy_str (startDate args)" and "\<not> truthy_str (endDate args)"
  shows "filterMeetings h args ms = ms"
  using assms by (simp add: filterMeetings_def keywordMatch_iff dateMatch_def)

theorem filter_identity_without_criteria_witness:
  "merged_keywords no_criteria = {} \<and> \<not> truthy_str (startDate no_criteria)
   \<and> \<not> truthy_str (endDate no_criteria)
   \<and> filterMeetings utc_plus_one no_criteria [standup, planning, standup]
       = [standup, planning, standup]"
proof -
  have h: "merged_keywords no_criteria = {}" "\<not> truthy_str (startDate no_criteria)"
    "\<not> truthy_str (endDate no_criteria)"
    by (simp_all add: merged_keywords_def no_criteria_def)
  from h filter_identity_without_criteria[OF h, of utc_plus_one "[standup, planning, standup]"]
  show ?thesis by simp
qed

lemma js_ge_Ms: "js_ge v (Ms b) \<longleftrightarrow> (\<exists>x. v = Ms x \<and> b \<le> x)"
  by (cases v) simp_all

lemma js_le_Ms: "js_le v (Ms e) \<longleftrightarrow> (\<exists>x. v = Ms x \<and> x \<le> e)"
  by (cases v) simp_all

lemma to_number_Ms: "to_number d = Ms x \<longleftrightarrow> d = Some (Ms x)"
  by (cases d) simp_all

text \<open>
  The comparisons with the bounds are inclusive: a record is retained only if it
  starts at or after a valid start bound, the bound itself passes and the
  millisecond before it does not; likewise, mirrored, for a valid end bound.
\<close>

lemma start_bound:
  assumes "startDate args = Some s" "s \<noteq> []" "startOfDay h s = Ms b"
  shows "dateMatch h args m \<Longrightarrow> \<exists>x. scheduledStartTime m = Some (Ms x) \<and> b \<le> x"
    and "dateMatch h (args\<lparr>endDate := None\<rparr>) (m\<lparr>scheduledStartTime := Some (Ms b)\<rparr>)"
    and "\<not> dateMatch h args (m\<lparr>scheduledStartTime := Some (Ms (b - 1))\<rparr>)"
proof -
  show "dateMatch h args m \<Longrightarrow> \<exists>x. scheduledStartTime m = Some (Ms x) \<and> b \<le> x"
    using assms by (simp add: dateMatch_iff date_criterion_def js_ge_Ms to_number_Ms)
  show "dateMatch h (args\<lparr>endDate := None\<rparr>) (m\<lparr>scheduledStartTime := Some (Ms b)\<rparr>)"
    using assms by (simp add: dateMatch_iff date_criterion_def)
  show "\<not> dateMatch h args (m\<lparr>scheduledStartTime := Some (Ms (b - 1))\<rparr>)"
    using assms by (simp add: dateMatch_iff date_criterion_def)
qed

lemma end_bound:
  assumes "endDate args = Some s" "s \<noteq> []" "endOfDay h s = Ms e"
  shows "dateMatch h args m \<Longrightarrow> \<exists>x. scheduledStartTime m = Some (Ms x) \<and> x \<le> e"
    and "dateMatch h (args\<lparr>startDate := None\<rparr>) (m\<lparr>scheduledStartTime := Some (Ms e)\<rparr>)"
    and "\<not> dateMatch h args (m\<lparr>scheduledStartTime := Some (Ms (e + 1))\<rparr>)"
proof -
  show "dateMatch h args m \<Longrightarrow> \<exists>x. scheduledStartTime m = Some (Ms x) \<and> x \<le> e"
    using assms by (simp add: dateMatch_iff date_criterion_def js_le_Ms to_number_Ms)
  show "dateMatch h (args\<lparr>startDate := None\<rparr>) (m\<lparr>scheduledStartTime := Some (Ms e)\<rparr>)"
    using assms by (simp add: dateMatch_iff date_criterion_def)
  show "\<not> dateMatch h args (m\<lparr>scheduledStartTime := Some (Ms (e + 1))\<rparr>)"
    using assms by (simp add: dateMatch_iff date_criterion_def)
qed

text \<open>
  One hour east of UTC the bounds of the end-to-end example fall on the days that
  were named: local midnight of 1 January and the last millisecond of 5 January.
\<close>

lemma bounds_east_of_utc:
  "startOfDay utc_plus_one ''2024-01-01'' = Ms 1704063600000"
  "LocalTime utc_plus_one 1704063600000 = 19723 * msPerDay"
  "endOfDay utc_plus_one ''2024-01-05'' = Ms 1704495599999"
  "LocalTime utc_plus_one 1704495599999 = 19727 * msPerDay + (msPerDay - 1)"
  by (simp_all add: utc_plus_one_def startOfDay_def endOfDay_def LocalTime_def UTC_def
        TimeClip_def msPerDay_def)

text \<open>
  Across the change to daylight saving the end of the day is taken with the offset
  that holds at the end of the day: 23:59:59.999 local of 10 March 2024 is
  03:59:59.999 UTC of 11 March.
\<close>

lemma end_of_day_across_dst:
  "endOfDay new_york_march ''March 10, 2024'' = Ms 1710129599999"
  by (simp add: new_york_march_def endOfDay_def LocalTime_def UTC_def TimeClip_def msPerDay_def)

text \<open>
  Claim C4. The code does not normalize a supplied date to a time of that calendar
  day when the process runs west of UTC. Five hours west of UTC, \<open>2024-01-01\<close> is
  parsed as midnight UTC, which is 19:00 local of 31 December, and \<open>setHours\<close>
  works on the local day: the start bound is 00:00:00.000 local of 31 December 2023
  (05:00 UTC), so a call at noon of 31 December is retained by a search from
  1 January. In the same way the end bound for \<open>2024-01-05\<close> is 23:59:59.999 local
  of 4 January, and a call at noon of 5 January is dropped by a search until
  5 January.
\<close>

theorem date_bounds_on_previous_day:
  "parseDate utc_minus_five ''2024-01-01'' = Ms (19723 * msPerDay)
   \<and> startOfDay utc_minus_five ''2024-01-01'' = Ms 1703998800000
   \<and> LocalTime utc_minus_five 1703998800000 = 19722 * msPerDay
   \<and> scheduledStartTime new_years_eve_call = Some (Ms 1704042000000)
   \<and> LocalTime utc_minus_five 1704042000000 div msPerDay = 19722
   \<and> filterMeetings utc_minus_five from_jan_1 [new_years_eve_call] = [new_years_eve_call]
   \<and> parseDate utc_minus_five ''2024-01-05'' = Ms (19727 * msPerDay)
   \<and> endOfDay utc_minus_five ''2024-01-05'' = Ms 1704430799999
   \<and> LocalTime utc_minus_five 1704430799999 = 19726 * msPerDay + (msPerDay - 1)
   \<and> scheduledStartTime jan_5_call = Some (Ms 1704474000000)
   \<and> LocalTime utc_minus_five 1704474000000 div msPerDay = 19727
   \<and> filterMeetings utc_minus_five until_jan_5 [jan_5_call] = []"
  by (simp add: utc_minus_five_def startOfDay_def endOfDay_def LocalTime_def UTC_def
        TimeClip_def msPerDay_def filterMeetings_def keywordMatch_def allKeywords_def
        dateMatch_def from_jan_1_def until_jan_5_def new_years_eve_call_def jan_5_call_def)

lemma invalid_bound: "parseDate h s = NaN \<Longrightarrow> startOfDay h s = NaN \<and> endOfDay h s = NaN"
  by (simp add: startOfDay_def endOfDay_def)

lemma js_NaN: "\<not> js_ge v NaN" "\<not> js_le v NaN"
  by (cases v; simp)+

text \<open>
  Claim C9. A non-empty start or end date that does not parse gives an
  invalid bound, every comparison with it is false, so the filter returns no record;
  the handler signals no error of its own and returns the empty result, its error
  flag being the one of the aggregation.
\<close>

theorem unparsable_date_excludes_everything:
  assumes "(\<exists>s. startDate args = Some s \<and> s \<noteq> [] \<and> parseDate h s = NaN)
         \<or> (\<exists>s. endDate args = Some s \<and> s \<noteq> [] \<and> parseDate h s = NaN)"
    and "fetchAllMeetings listMeetings u0 False False = Some fetched"
  shows "(\<forall>s. parseDate h s = NaN \<longrightarrow> startOfDay h s = NaN \<and> endOfDay h s = NaN)
       \<and> (\<forall>v. \<not> js_ge v NaN \<and> \<not> js_le v NaN)
       \<and> (\<forall>ms. filterMeetings h args ms = [])
       \<and> search_meetings h r listMeetings u0 args
           = Some (\<lparr>content_text = stringifyMeetings r [],
                     structuredContent =
                       Some \<lparr>sp_meetings = [], sp_count = 0, elicitationPrompt = Some []\<rparr>,
                     isError = Some (hadError fetched)\<rparr>,
                   requests fetched)"
proof -
  have no: "\<not> dateMatch h args m" for m
    using assms(1) by (auto simp: dateMatch_iff date_criterion_def invalid_bound js_NaN)
  then have empty: "filterMeetings h args ms = []" for ms
    by (simp add: filterMeetings_def)
  then have "search_meetings h r listMeetings u0 args
           = Some (\<lparr>content_text = stringifyMeetings r [],
                     structuredContent =
                       Some \<lparr>sp_meetings = [], sp_count = 0, elicitationPrompt = Some []\<rparr>,
                     isError = Some (hadError fetched)\<rparr>,
                   requests fetched)"
    using assms(2) by (simp add: search_meetings_def ENABLE_ELICITATION_def)
  with empty show ?thesis
    by (simp add: invalid_bound js_NaN)
qed

lemma two_pages_run:
  "fetchAllMeetings (replay (script two_pages)) 0 False False
     = Some \<lparr>meetings = [standup, planning], hadError = False,
             requests = [mk_request False False (Some []), mk_request False False (Some ''p2'')],
             finalUpstream = 2\<rparr>"
proof -
  have run: "\<forall>i<1. \<not> stops (script two_pages i)"
    by (simp add: script_def two_pages_def stops_def)
  have stop: "stops (script two_pages 1)"
    by (simp add: script_def two_pages_def stops_def)
  show ?thesis
    unfolding fetch_first_stop[OF run stop] calls_cursors
    by (simp add: script_def two_pages_def)
qed

theorem unparsable_date_excludes_everything_witness:
  "startDate unparsable_start = Some ''next tuesday'' \<and> ''next tuesday'' \<noteq> []
   \<and> parseDate utc_plus_one ''next tuesday'' = NaN
   \<and> search_meetings utc_plus_one plain_rendering (replay (script two_pages)) 0 unparsable_start
       = Some (\<lparr>content_text = ''(json)'',
                 structuredContent =
                   Some \<lparr>sp_meetings = [], sp_count = 0, elicitationPrompt = Some []\<rparr>,
                 isError = Some False\<rparr>,
               [mk_request False False (Some []), mk_request False False (Some ''p2'')])"
proof -
  have h: "startDate unparsable_start = Some ''next tuesday''" "''next tuesday'' \<noteq> []"
    "parseDate utc_plus_one ''next tuesday'' = NaN"
    by (simp_all add: unparsable_start_def utc_plus_one_def)
  then have d: "(\<exists>s. startDate unparsable_start = Some s \<and> s \<noteq> [] \<and> parseDate utc_plus_one s = NaN)
         \<or> (\<exists>s. endDate unparsable_start = Some s \<and> s \<noteq> [] \<and> parseDate utc_plus_one s = NaN)"
    by blast
  from unparsable_date_excludes_everything[OF d two_pages_run, of plain_rendering] h
  show ?thesis by (simp add: plain_rendering_def)
qed

text \<open>
  An empty string is a start date that does not parse, and it excludes no record: the
  handler tests the truthiness of the argument before it builds the bound.
\<close>

theorem blank_start_date_excludes_nothing:
  "startDate blank_start = Some [] \<and> parseDate utc_plus_one [] = NaN
   \<and> filterMeetings utc_plus_one blank_start [standup, planning] = [standup, planning]
   \<and> sp_count (the (structuredContent (fst (the
         (search_meetings utc_plus_one plain_rendering (replay (script two_pages)) 0
            blank_start))))) = 2"
proof -
  have flt: "filterMeetings utc_plus_one blank_start [standup, planning] = [standup, planning]"
    by (simp add: filterMeetings_def keywordMatch_def allKeywords_def dateMatch_def
          blank_start_def)
  have "search_meetings utc_plus_one plain_rendering (replay (script two_pages)) 0 blank_start
      = Some (\<lparr>content_text = ''(json)'' @ elicitation_text,
                structuredContent =
                  Some \<lparr>sp_meetings = [formatMeeting plain_rendering standup,
                                      formatMeeting plain_rendering planning],
                        sp_count = 2,
                        elicitationPrompt = Some elicitation_text\<rparr>,
                isError = Some False\<rparr>,
              [mk_request False False (Some []), mk_request False False (Some ''p2'')])"
    by (simp add: search_meetings_def two_pages_run flt ENABLE_ELICITATION_def
          plain_rendering_def)
  with flt show ?thesis
    by (simp add: blank_start_def utc_plus_one_def)
qed

section \<open>Properties of the \<open>search_meetings\<close> handler\<close>

text \<open>
  Claim C10. Whatever its arguments, \<open>search_meetings\<close> runs the aggregator with both
  include flags false, and every request that goes upstream on its behalf carries
  \<open>includeSummary = false\<close> and \<open>includeTranscript = false\<close>.
\<close>

theorem search_meetings_requests_metadata_only:
  assumes "search_meetings h r listMeetings u0 args = Some (res, reqs)"
  shows "(\<exists>fetched. fetchAllMeetings listMeetings u0 False False = Some fetched
                    \<and> reqs = requests fetched)
       \<and> (\<forall>q \<in> set reqs. \<not> includeSummary q \<and> \<not> includeTranscript q)"
proof -
  from assms obtain fetched
    where f: "fetchAllMeetings listMeetings u0 False False = Some fetched"
      and r: "reqs = requests fetched"
    by (auto simp: search_meetings_def Let_def split: option.splits)
  from f have "fetch_loop listMeetings False False
       \<lparr>allMeetings = [], cursorVar = Some [], hasMorePages = True,
        upstreamState = u0, issued = []\<rparr> = Some fetched"
    by (simp only: fetchAllMeetings_def)
  from fetch_loop_flags[OF this] have "\<forall>q \<in> set (requests fetched). \<not> includeSummary q \<and> \<not> includeTranscript q"
    by simp
  with f r show ?thesis by blast
qed

theorem search_meetings_requests_metadata_only_witness:
  "search_meetings utc_plus_one plain_rendering (replay (script two_pages)) 0 standup_args
     = Some (standup_result,
             [mk_request False False (Some []), mk_request False False (Some ''p2'')])
   \<and> list_all (\<lambda>q. \<not> includeSummary q \<and> \<not> includeTranscript q)
        [mk_request False False (Some []), mk_request False False (Some ''p2'')]"
proof -
  have flt: "filterMeetings utc_plus_one standup_args [standup, planning] = [standup]"
    by (simp add: filterMeetings_def keywordMatch_def dateMatch_def allKeywords_def standup_args_def
      standup_def planning_def utc_plus_one_def keyword_found_def foundInParticipants_def
      foundInTitle_def lower_includes_def toLowerCase_def lower_char_def startOfDay_def endOfDay_def
      LocalTime_def UTC_def TimeClip_def msPerDay_def)
  have run: "search_meetings utc_plus_one plain_rendering (replay (script two_pages)) 0 standup_args
     = Some (standup_result,
             [mk_request False False (Some []), mk_request False False (Some ''p2'')])"
    by (simp add: search_meetings_def two_pages_run flt standup_result_def ENABLE_ELICITATION_def
          plain_rendering_def)
  from search_meetings_requests_metadata_only[OF run] show ?thesis
    using run by (simp add: list_all_iff)
qed

section \<open>Properties of the transcript handlers\<close>

lemma recognised_iff:
  "js_truthy data \<and> typeof_object data \<and> js_in ''transcript'' data
     \<and> isArray (member data ''transcript'') \<longleftrightarrow> has_transcript_array data"
proof (cases data)
  case (JObj kvs)
  show ?thesis
  proof (cases "map_of kvs ''transcript''")
    case None
    with JObj show ?thesis by simp
  next
    case (Some v)
    then have "''transcript'' \<in> fst ` set kvs" by (metis map_of_eq_None_iff option.distinct(1))
    with JObj Some show ?thesis by (cases v) simp_all
  qed
qed simp_all






lemma http_unrecognised:
  assumes "fetch rt (transcript_request rt rid) = FetchResolved response"
    and "\<forall>data. json response = Json data \<longrightarrow> \<not> has_transcript_array data"
  shows "isError (fathom_get_transcript rt rid) = Some True
       \<and> structuredContent (fathom_get_transcript rt rid) = None
       \<and> (\<exists>msg. content_text (fathom_get_transcript rt rid) = ''Error fetching transcript: '' @ msg
               \<or> content_text (fathom_get_transcript rt rid) = ''Unexpected response format: '' @ msg)
       \<and> (\<forall>data. ok response \<and> json response = Json data \<longrightarrow>
             content_text (fathom_get_transcript rt rid)
               = ''Unexpected response format: '' @ stringifyData rt data)"
proof (cases "ok response")
  case False
  with assms(1) show ?thesis
    by (simp add: fathom_get_transcript_def transcript_caught_def)
next
  case True
  show ?thesis
  proof (cases "json response")
    case (InvalidJson e)
    with assms(1) True show ?thesis
      by (simp add: fathom_get_transcript_def transcript_caught_def)
  next
    case (Json data)
    with assms(2) have "\<not> has_transcript_array data" by simp
    then have cond: "(js_truthy data \<and> typeof_object data \<and> js_in ''transcript'' data
                  \<and> isArray (member data ''transcript'')) = False"
      by (simp only: recognised_iff)
    from assms(1) True Json show ?thesis
      by (simp add: fathom_get_transcript_def cond)
  qed
qed

lemma sdk_callback:
  assumes "getRecordingTranscript srt rid [] = SdkResolved (JObj kvs)"
    and "\<not> js_truthy (member (JObj kvs) ''transcript'')"
  shows "fathom_get_transcript_sdk srt rid = callback_reply srt (JObj kvs)"
  using assms by (simp add: fathom_get_transcript_sdk_def)


lemma canned_fetch:
  "fetch (canned response) (transcript_request (canned response) 42) = FetchResolved response"
  by (simp add: canned_def transcript_request_def show_int_def show_nat_def digit_char_def)



text \<open>
  The SDK-based handler answers a reply that is not an object with a transcript array
  with the text of the callback reply and \<open>isError = false\<close>.
\<close>

theorem sdk_handler_reports_callback_without_error:
  "getRecordingTranscript (sdk_canned (JObj [(''message'', JStr ''queued'')])) 42 []
     = SdkResolved (JObj [(''message'', JStr ''queued'')])
   \<and> \<not> has_transcript_array (JObj [(''message'', JStr ''queued'')])
   \<and> fathom_get_transcript_sdk (sdk_canned (JObj [(''message'', JStr ''queued'')])) 42
       = \<lparr>content_text = ''Transcript requested via callback. Response: (response)'',
          structuredContent = None,
          isError = Some False\<rparr>"
  by (simp add: fathom_get_transcript_sdk_def sdk_canned_def callback_reply_def)

text \<open>
  Claim C8. In the direct-HTTP version of the handler, a response whose
  body is not an object with a transcript array (it does not parse, or it parses to
  something else) gives a tool-level error result: \<open>isError\<close> is true, there is no
  structured payload, and the text is a formatted message, the \<open>Unexpected response
  format\<close> one when the status was ok and the body did parse. In the SDK-based
  version, an object reply without a truthy \<open>transcript\<close> property is taken for the
  callback reply of the API and reported as such, with \<open>isError\<close> false.
\<close>

theorem transcript_shape_handling:
  "(fetch rt (transcript_request rt rid) = FetchResolved response
      \<and> (\<forall>data. json response = Json data \<longrightarrow> \<not> has_transcript_array data) \<longrightarrow>
        isError (fathom_get_transcript rt rid) = Some True
      \<and> structuredContent (fathom_get_transcript rt rid) = None
      \<and> (\<exists>msg. content_text (fathom_get_transcript rt rid)
                   = ''Error fetching transcript: '' @ msg
               \<or> content_text (fathom_get_transcript rt rid)
                   = ''Unexpected response format: '' @ msg)
      \<and> (\<forall>data. ok response \<and> json response = Json data \<longrightarrow>
            content_text (fathom_get_transcript rt rid)
              = ''Unexpected response format: '' @ stringifyData rt data))
   \<and>
   (getRecordingTranscript srt rid [] = SdkResolved (JObj kvs)
      \<and> \<not> js_truthy (member (JObj kvs) ''transcript'') \<longrightarrow>
        fathom_get_transcript_sdk srt rid
          = \<lparr>content_text =
               ''Transcript requested via callback. Response: ''
                 @ sdkStringifyResponse srt (JObj kvs),
             structuredContent = None,
             isError = Some False\<rparr>)"
proof (intro conjI impI)
  assume a: "fetch rt (transcript_request rt rid) = FetchResolved response
      \<and> (\<forall>data. json response = Json data \<longrightarrow> \<not> has_transcript_array data)"
  then have a1: "fetch rt (transcript_request rt rid) = FetchResolved response"
    and a2: "\<forall>data. json response = Json data \<longrightarrow> \<not> has_transcript_array data"
    by simp_all
  note h = http_unrecognised[OF a1 a2]
  from h show "isError (fathom_get_transcript rt rid) = Some True" by (rule conjunct1)
  from h show "structuredContent (fathom_get_transcript rt rid) = None" by blast
  from h show "\<exists>msg. content_text (fathom_get_transcript rt rid)
                   = ''Error fetching transcript: '' @ msg
               \<or> content_text (fathom_get_transcript rt rid)
                   = ''Unexpected response format: '' @ msg" by blast
  from h show "\<forall>data. ok response \<and> json response = Json data \<longrightarrow>
            content_text (fathom_get_transcript rt rid)
              = ''Unexpected response format: '' @ stringifyData rt data" by blast
next
  assume "getRecordingTranscript srt rid [] = SdkResolved (JObj kvs)
      \<and> \<not> js_truthy (member (JObj kvs) ''transcript'')"
  then have "getRecordingTranscript srt rid [] = SdkResolved (JObj kvs)"
    "\<not> js_truthy (member (JObj kvs) ''transcript'')" by simp_all
  from sdk_callback[OF this]
  show "fathom_get_transcript_sdk srt rid
          = \<lparr>content_text =
               ''Transcript requested via callback. Response: ''
                 @ sdkStringifyResponse srt (JObj kvs),
             structuredContent = None,
             isError = Some False\<rparr>"
    by (simp add: callback_reply_def)
qed

theorem transcript_shape_handling_witness:
  "fetch (canned unexpected_body) (transcript_request (canned unexpected_body) 42)
     = FetchResolved unexpected_body
   \<and> \<not> has_transcript_array (JObj [(''message'', JStr ''queued'')])
   \<and> isError (fathom_get_transcript (canned unexpected_body) 42) = Some True
   \<and> structuredContent (fathom_get_transcript (canned unexpected_body) 42) = None
   \<and> content_text (fathom_get_transcript (canned unexpected_body) 42)
       = ''Unexpected response format: (data)''
   \<and> getRecordingTranscript (sdk_canned (JObj [(''destinationUrl'', JStr [])])) 42 []
       = SdkResolved (JObj [(''destinationUrl'', JStr [])])
   \<and> fathom_get_transcript_sdk (sdk_canned (JObj [(''destinationUrl'', JStr [])])) 42
       = \<lparr>content_text = ''Transcript requested via callback. Response: (response)'',
          structuredContent = None,
          isError = Some False\<rparr>"
proof -
  have h: "\<forall>data. json unexpected_body = Json data \<longrightarrow> \<not> has_transcript_array data"
    by (simp add: unexpected_body_def)
  have b: "ok unexpected_body" "json unexpected_body = Json (JObj [(''message'', JStr ''queued'')])"
    by (simp_all add: unexpected_body_def)
  have s: "getRecordingTranscript (sdk_canned (JObj [(''destinationUrl'', JStr [])])) 42 []
       = SdkResolved (JObj [(''destinationUrl'', JStr [])])"
    "\<not> js_truthy (member (JObj [(''destinationUrl'', JStr [])]) ''transcript'')"
    by (simp_all add: sdk_canned_def)
  from transcript_shape_handling
         [of "canned unexpected_body" 42 unexpected_body
             "sdk_canned (JObj [(''destinationUrl'', JStr [])])" "[(''destinationUrl'', JStr [])]"]
       canned_fetch[of unexpected_body] h b s
  show ?thesis by (simp add: canned_def sdk_canned_def)
qed

end
